theory Spec2Isabelle
  imports Main "HOL-Library.Multiset"
begin

section \<open>Data model\<close>

text \<open>
  The three enumerations of \<^verbatim>\<open>src/types/chat.ts\<close> and of the first migration
  (\<^verbatim>\<open>gender_type\<close>, \<^verbatim>\<open>chat_type\<close>, \<^verbatim>\<open>session_status\<close>).
\<close>

datatype GenderType = male | female | any_gender

datatype ChatType = text_chat | audio_chat | video_chat

datatype SessionStatus = waiting | matched | ended

text \<open>
  Rows of the three tables. Identifiers (UUIDs in the store) are natural numbers,
  timestamps are integers counted in milliseconds, a nullable column is an option.
  The participant row has the two columns \<^verbatim>\<open>last_seen\<close> and \<^verbatim>\<open>is_online\<close> that the
  migration \<^verbatim>\<open>snowy_bread\<close> adds.
\<close>

record ChatSession =
  cs_id :: nat
  cs_session_type :: ChatType
  cs_status :: SessionStatus
  cs_created_at :: int
  cs_ended_at :: "int option"
  cs_updated_at :: int

record Participant =
  p_id :: nat
  p_session_id :: "nat option"
  p_name :: string
  p_gender :: GenderType
  p_preferred_gender :: GenderType
  p_is_waiting :: bool
  p_joined_at :: int
  p_left_at :: "int option"
  p_last_seen :: int
  p_is_online :: bool

record Message =
  m_id :: nat
  m_session_id :: nat
  m_participant_id :: nat
  m_content :: string
  m_sent_at :: int

text \<open>
  The store: one list of rows per table, in the order the store keeps them. Row-level
  access policies are not part of the model.
\<close>

record db =
  chat_sessions :: "ChatSession list"
  participants :: "Participant list"
  messages :: "Message list"

section \<open>The reaper: \<^verbatim>\<open>cleanup_offline_participants\<close>\<close>

text \<open>
  First statement of the SQL function:
  \<^verbatim>\<open>UPDATE participants SET is_online = false, is_waiting = false
     WHERE last_seen < now() - interval '30 seconds' AND is_online = true\<close>.
\<close>

definition liveness_threshold :: int where
  "liveness_threshold = 30000"

definition mark_offline_row :: "int \<Rightarrow> Participant \<Rightarrow> Participant" where
  "mark_offline_row now p =
     (if p_last_seen p < now - liveness_threshold \<and> p_is_online p = True
      then p\<lparr>p_is_waiting := False, p_is_online := False\<rparr> else p)"

text \<open>
  The subquery of the second statement:
  \<^verbatim>\<open>SELECT session_id FROM participants WHERE session_id IS NOT NULL
     GROUP BY session_id HAVING bool_and(NOT is_online)\<close>.
  A session identifier is selected when some participant row carries it and every row
  that carries it is offline.
\<close>

definition all_offline :: "Participant list \<Rightarrow> nat \<Rightarrow> bool" where
  "all_offline ps sid =
     (list_ex (\<lambda>p. p_session_id p = Some sid) ps \<and>
      list_all (\<lambda>p. p_session_id p = Some sid \<longrightarrow> \<not> p_is_online p) ps)"

text \<open>
  Second statement: \<^verbatim>\<open>UPDATE chat_sessions SET status = 'ended', ended_at = now()
  WHERE status = 'matched' AND id IN (...)\<close>. Every update of a session row fires the
  trigger \<^verbatim>\<open>update_chat_sessions_updated_at\<close>, which sets \<^verbatim>\<open>updated_at = now()\<close>.
\<close>

definition end_offline_row :: "int \<Rightarrow> Participant list \<Rightarrow> ChatSession \<Rightarrow> ChatSession" where
  "end_offline_row now ps s =
     (if cs_status s = matched \<and> all_offline ps (cs_id s)
      then s\<lparr>cs_status := ended, cs_ended_at := Some now, cs_updated_at := now\<rparr> else s)"

definition cleanup_offline_participants :: "int \<Rightarrow> db \<Rightarrow> db" where
  "cleanup_offline_participants now d =
     (let ps = map (mark_offline_row now) (participants d)
      in d\<lparr>chat_sessions := map (end_offline_row now ps) (chat_sessions d),
           participants := ps\<rparr>)"

section \<open>The store calls the client makes\<close>

text \<open>
  What one operation reads from its surroundings: the clock, the identifiers the
  store draws with \<^verbatim>\<open>gen_random_uuid()\<close> for the rows the operation inserts, and which
  store calls come back with an error. One operation is modelled at one clock reading.
\<close>

datatype store_call =
    InsertParticipant | RpcCleanup | SelectCandidates | InsertSession | BindParticipants
  | DeleteSession | InsertMessage | RpcHeartbeat | EndSession | ResetParticipant
  | MarkLeft | SelectMessages

record env =
  clock :: int
  new_participant_id :: nat
  new_session_id :: nat
  new_message_id :: nat
  fails :: "store_call \<Rightarrow> bool"

text \<open>
  JavaScript's \<^verbatim>\<open>String.prototype.trim\<close> on the whitespace that one-byte characters can
  express (tab, line feed, vertical tab, form feed, carriage return, space), and
  PostgreSQL's \<^verbatim>\<open>trim(s)\<close>, which removes spaces only.
\<close>

definition js_whitespace :: "char \<Rightarrow> bool" where
  "js_whitespace c = (of_char c \<in> {9, 10, 11, 12, 13, 32 :: nat})"

definition trim_both :: "(char \<Rightarrow> bool) \<Rightarrow> string \<Rightarrow> string" where
  "trim_both strip s = rev (dropWhile strip (rev (dropWhile strip s)))"

definition js_trim :: "string \<Rightarrow> string" where
  "js_trim s = trim_both js_whitespace s"

definition pg_trim :: "string \<Rightarrow> string" where
  "pg_trim s = trim_both (\<lambda>c. c = CHR '' '') s"

text \<open>
  \<^verbatim>\<open>from('participants').insert({name, gender, preferred_gender, is_waiting: true,
  is_online: true, last_seen}).select().single()\<close>. The columns the client leaves out take
  their defaults. The insert is refused on a duplicate primary key and by the constraint
  \<^verbatim>\<open>check_name_not_empty\<close>.
\<close>

definition insert_participant ::
  "env \<Rightarrow> string \<Rightarrow> GenderType \<Rightarrow> GenderType \<Rightarrow> db \<Rightarrow> Participant option \<times> db" where
  "insert_participant e nm g pg d =
     (let row = \<lparr>p_id = new_participant_id e, p_session_id = None, p_name = nm, p_gender = g,
                 p_preferred_gender = pg, p_is_waiting = True, p_joined_at = clock e,
                 p_left_at = None, p_last_seen = clock e, p_is_online = True\<rparr>
      in if fails e InsertParticipant \<or> new_participant_id e \<in> p_id ` set (participants d)
            \<or> length (pg_trim nm) = 0
         then (None, d)
         else (Some row, d\<lparr>participants := participants d @ [row]\<rparr>))"

text \<open>\<^verbatim>\<open>rpc('cleanup_offline_participants')\<close>; the client ignores its result.\<close>

definition rpc_cleanup :: "env \<Rightarrow> db \<Rightarrow> db" where
  "rpc_cleanup e d = (if fails e RpcCleanup then d else cleanup_offline_participants (clock e) d)"

text \<open>
  The SQL function \<^verbatim>\<open>update_participant_heartbeat\<close>:
  \<^verbatim>\<open>UPDATE participants SET last_seen = now(), is_online = true WHERE id = participant_uuid\<close>,
  and its call through \<^verbatim>\<open>rpc\<close>.
\<close>

definition update_participant_heartbeat :: "int \<Rightarrow> nat \<Rightarrow> db \<Rightarrow> db" where
  "update_participant_heartbeat t participant_uuid d =
     d\<lparr>participants :=
         map (\<lambda>p. if p_id p = participant_uuid then p\<lparr>p_last_seen := t, p_is_online := True\<rparr> else p)
           (participants d)\<rparr>"

definition rpc_heartbeat :: "env \<Rightarrow> nat \<Rightarrow> db \<Rightarrow> db" where
  "rpc_heartbeat e pid d =
     (if fails e RpcHeartbeat then d else update_participant_heartbeat (clock e) pid d)"

text \<open>
  The candidate query of \<^verbatim>\<open>findOnlineCompatiblePartner\<close>:
  \<^verbatim>\<open>.eq('is_waiting', true).eq('is_online', true).neq('id', participant.id)
  .gte('last_seen', now - 30000).order('joined_at', {ascending: true}).limit(20)\<close>.
  Rows with equal \<^verbatim>\<open>joined_at\<close> come in the order the table holds them (the store promises
  no order among them).
\<close>

definition candidate_row :: "env \<Rightarrow> Participant \<Rightarrow> Participant \<Rightarrow> bool" where
  "candidate_row e participant p =
     (p_is_waiting p = True \<and> p_is_online p = True \<and> p_id p \<noteq> p_id participant \<and>
      clock e - 30000 \<le> p_last_seen p)"

definition select_candidates :: "env \<Rightarrow> Participant \<Rightarrow> db \<Rightarrow> Participant list option" where
  "select_candidates e participant d =
     (if fails e SelectCandidates then None
      else Some (take 20 (sort_key p_joined_at (filter (candidate_row e participant) (participants d)))))"

text \<open>\<^verbatim>\<open>from('chat_sessions').insert({session_type, status: 'matched'}).select().single()\<close>.\<close>

definition matched_row :: "env \<Rightarrow> ChatType \<Rightarrow> ChatSession" where
  "matched_row e chatType =
     \<lparr>cs_id = new_session_id e, cs_session_type = chatType, cs_status = matched,
      cs_created_at = clock e, cs_ended_at = None, cs_updated_at = clock e\<rparr>"

definition insert_session :: "env \<Rightarrow> ChatType \<Rightarrow> db \<Rightarrow> ChatSession option \<times> db" where
  "insert_session e chatType d =
     (if fails e InsertSession \<or> new_session_id e \<in> cs_id ` set (chat_sessions d)
      then (None, d)
      else (Some (matched_row e chatType), d\<lparr>chat_sessions := chat_sessions d @ [matched_row e chatType]\<rparr>))"

text \<open>
  \<^verbatim>\<open>from('participants').update({session_id, is_waiting: false, last_seen})
  .in('id', [participant1.id, participant2.id])\<close>. The only filter is on the identifier.
  The first component tells whether the call came back with an error.
\<close>

definition bind_row :: "env \<Rightarrow> nat \<Rightarrow> nat list \<Rightarrow> Participant \<Rightarrow> Participant" where
  "bind_row e sid ids p =
     (if p_id p \<in> set ids
      then p\<lparr>p_session_id := Some sid, p_is_waiting := False, p_last_seen := clock e\<rparr> else p)"

definition bind_participants :: "env \<Rightarrow> nat \<Rightarrow> nat list \<Rightarrow> db \<Rightarrow> bool \<times> db" where
  "bind_participants e sid ids d =
     (if fails e BindParticipants then (True, d)
      else (False, d\<lparr>participants := map (bind_row e sid ids) (participants d)\<rparr>))"

text \<open>
  \<^verbatim>\<open>from('chat_sessions').delete().eq('id', session.id)\<close>. Both foreign keys on a session
  and the one on a participant are declared \<^verbatim>\<open>ON DELETE CASCADE\<close>.
\<close>

definition delete_session :: "env \<Rightarrow> nat \<Rightarrow> db \<Rightarrow> db" where
  "delete_session e sid d =
     (if fails e DeleteSession then d
      else let gone = filter (\<lambda>p. p_session_id p = Some sid) (participants d)
           in d\<lparr>chat_sessions := filter (\<lambda>s. cs_id s \<noteq> sid) (chat_sessions d),
                participants := filter (\<lambda>p. p_session_id p \<noteq> Some sid) (participants d),
                messages := filter (\<lambda>m. m_session_id m \<noteq> sid \<and> m_participant_id m \<notin> p_id ` set gone)
                              (messages d)\<rparr>)"


text \<open>
  \<^verbatim>\<open>from('chat_sessions').update({status: 'ended', ended_at}).eq('id', id)\<close>, with the
  \<^verbatim>\<open>updated_at\<close> trigger. The only filter is on the identifier.
\<close>

definition end_row :: "env \<Rightarrow> nat \<Rightarrow> ChatSession \<Rightarrow> ChatSession" where
  "end_row e sid s =
     (if cs_id s = sid
      then s\<lparr>cs_status := ended, cs_ended_at := Some (clock e), cs_updated_at := clock e\<rparr> else s)"

definition end_session :: "env \<Rightarrow> nat \<Rightarrow> db \<Rightarrow> db" where
  "end_session e sid d =
     (if fails e EndSession then d
      else d\<lparr>chat_sessions := map (end_row e sid) (chat_sessions d)\<rparr>)"

text \<open>
  \<^verbatim>\<open>from('participants').update({session_id: null, is_waiting: true, last_seen})
  .eq('id', id).select().single()\<close>: \<^verbatim>\<open>single()\<close> reports an error unless exactly one row
  comes back.
\<close>

definition reset_row :: "env \<Rightarrow> nat \<Rightarrow> Participant \<Rightarrow> Participant" where
  "reset_row e pid p =
     (if p_id p = pid
      then p\<lparr>p_session_id := None, p_is_waiting := True, p_last_seen := clock e\<rparr> else p)"

definition reset_participant :: "env \<Rightarrow> nat \<Rightarrow> db \<Rightarrow> Participant option \<times> db" where
  "reset_participant e pid d =
     (if fails e ResetParticipant then (None, d)
      else let d' = d\<lparr>participants := map (reset_row e pid) (participants d)\<rparr>
           in case filter (\<lambda>p. p_id p = pid) (participants d') of
                [row] \<Rightarrow> (Some row, d')
              | _ \<Rightarrow> (None, d'))"

text \<open>
  \<^verbatim>\<open>from('participants').update({is_waiting: false, is_online: false, left_at})
  .eq('id', id)\<close>.
\<close>

definition left_row :: "env \<Rightarrow> nat \<Rightarrow> Participant \<Rightarrow> Participant" where
  "left_row e pid p =
     (if p_id p = pid
      then p\<lparr>p_is_waiting := False, p_left_at := Some (clock e), p_is_online := False\<rparr> else p)"

definition mark_left :: "env \<Rightarrow> nat \<Rightarrow> db \<Rightarrow> db" where
  "mark_left e pid d =
     (if fails e MarkLeft then d
      else d\<lparr>participants := map (left_row e pid) (participants d)\<rparr>)"

text \<open>
  \<^verbatim>\<open>from('messages').select('*').eq('session_id', id).order('sent_at', {ascending: true})\<close>.
  The only sort key is \<^verbatim>\<open>sent_at\<close>; rows with equal \<^verbatim>\<open>sent_at\<close> come in table order.
\<close>

definition select_messages :: "env \<Rightarrow> nat \<Rightarrow> db \<Rightarrow> Message list option" where
  "select_messages e sid d =
     (if fails e SelectMessages then None
      else Some (sort_key m_sent_at (filter (\<lambda>m. m_session_id m = sid) (messages d))))"

text \<open>
  The query builders of the store client are thenables: the request goes out when the
  builder is awaited or given a callback. A builder that is written as a statement of
  its own, with neither, sends nothing.
\<close>

definition unawaited :: "(db \<Rightarrow> 'a) \<Rightarrow> db \<Rightarrow> db" where
  "unawaited request d = d"

section \<open>The hook \<^verbatim>\<open>useChat\<close>\<close>

text \<open>
  The repository holds three versions of the hook. The one modelled here is the latest,
  the only one that uses the heartbeat, the online flag and the reaper of the last
  migration. The two earlier ones pair, skip, stop and load messages through the same
  store calls, without the liveness columns.
\<close>

text \<open>
  The hook's state: the six \<^verbatim>\<open>useState\<close> cells, the \<^verbatim>\<open>heartbeatInterval\<close> reference (the
  participant the running interval beats for) and the titles of the toasts shown.
\<close>

record client =
  currentSession :: "ChatSession option"
  currentParticipant :: "Participant option"
  partner :: "Participant option"
  shown_messages :: "Message list"
  isConnected :: bool
  isSearching :: bool
  heartbeatInterval :: "nat option"
  toasts :: "string list"

definition toast :: "string \<Rightarrow> client \<Rightarrow> client" where
  "toast title c = c\<lparr>toasts := toasts c @ [title]\<rparr>"

definition startHeartbeat :: "env \<Rightarrow> nat \<Rightarrow> client \<times> db \<Rightarrow> client \<times> db" where
  "startHeartbeat e participantId w =
     (case w of (c, d) \<Rightarrow>
        (c\<lparr>heartbeatInterval := Some participantId\<rparr>, unawaited (rpc_heartbeat e participantId) d))"

definition stopHeartbeat :: "client \<Rightarrow> client" where
  "stopHeartbeat c = c\<lparr>heartbeatInterval := None\<rparr>"


definition mutually_compatible :: "Participant \<Rightarrow> Participant \<Rightarrow> bool" where
  "mutually_compatible participant partner' =
     (let partnerWantsMe = (p_preferred_gender partner' = any_gender \<or>
                            p_preferred_gender partner' = p_gender participant);
          iWantPartner = (p_preferred_gender participant = any_gender \<or>
                          p_preferred_gender participant = p_gender partner')
      in partnerWantsMe \<and> iWantPartner)"

definition findOnlineCompatiblePartner ::
  "env \<Rightarrow> Participant \<Rightarrow> ChatType \<Rightarrow> db \<Rightarrow> Participant option \<times> db" where
  "findOnlineCompatiblePartner e participant chatType d =
     (let d1 = rpc_cleanup e d
      in case select_candidates e participant d1 of
           None \<Rightarrow> (None, d1)
         | Some compatibleParticipants \<Rightarrow>
             if length compatibleParticipants = 0 then (None, d1)
             else (case filter (mutually_compatible participant) compatibleParticipants of
                     [] \<Rightarrow> (None, d1)
                   | first # _ \<Rightarrow> (Some first, d1)))"

definition createMatchedSession ::
  "env \<Rightarrow> Participant \<Rightarrow> Participant \<Rightarrow> ChatType \<Rightarrow> db \<Rightarrow> ChatSession option \<times> db" where
  "createMatchedSession e participant1 participant2 chatType d =
     (case insert_session e chatType d of
        (None, d1) \<Rightarrow> (None, d1)
      | (Some session, d1) \<Rightarrow>
          (case bind_participants e (cs_id session) [p_id participant1, p_id participant2] d1 of
             (True, d2) \<Rightarrow> (None, delete_session e (cs_id session) d2)
           | (False, d2) \<Rightarrow> (Some session, d2)))"

definition connected :: "ChatSession \<Rightarrow> Participant \<Rightarrow> client \<Rightarrow> client" where
  "connected session p c =
     c\<lparr>currentSession := Some session, partner := Some p, isConnected := True, isSearching := False\<rparr>"

definition startChat_failed :: "client \<Rightarrow> client" where
  "startChat_failed c = toast ''Error'' (stopHeartbeat (c\<lparr>isSearching := False\<rparr>))"

definition startChat ::
  "env \<Rightarrow> string \<Rightarrow> GenderType \<Rightarrow> GenderType \<Rightarrow> ChatType \<Rightarrow> client \<times> db \<Rightarrow> client \<times> db" where
  "startChat e name gender preferredGender chatType w =
     (case w of (c0, d) \<Rightarrow>
        (case insert_participant e (js_trim name) gender preferredGender d of
           (None, d1) \<Rightarrow> (startChat_failed (c0\<lparr>isSearching := True\<rparr>), d1)
         | (Some participant, d1) \<Rightarrow>
             (case startHeartbeat e (p_id participant)
                     (c0\<lparr>isSearching := True, currentParticipant := Some participant\<rparr>, d1) of
                (c1, d2) \<Rightarrow>
                  (case findOnlineCompatiblePartner e participant chatType d2 of
                     (None, d3) \<Rightarrow> (toast ''Searching...'' c1, d3)
                   | (Some compatiblePartner, d3) \<Rightarrow>
                       (case createMatchedSession e participant compatiblePartner chatType d3 of
                          (Some session, d4) \<Rightarrow>
                            (toast ''Connected!'' (connected session compatiblePartner c1), d4)
                        | (None, d4) \<Rightarrow> (startChat_failed c1, d4))))))"



definition skipped :: "Participant \<Rightarrow> client \<Rightarrow> client" where
  "skipped updatedParticipant c =
     toast ''Skipped''
       (c\<lparr>currentSession := None, currentParticipant := Some updatedParticipant, partner := None,
          shown_messages := [], isConnected := False, isSearching := True\<rparr>)"

definition skipChat :: "env \<Rightarrow> client \<times> db \<Rightarrow> client \<times> db" where
  "skipChat e w =
     (case w of (c, d) \<Rightarrow>
        (case (currentSession c, currentParticipant c) of
           (Some session, Some participant) \<Rightarrow>
             (case reset_participant e (p_id participant) (end_session e (cs_id session) d) of
                (None, d2) \<Rightarrow> (toast ''Error'' c, d2)
              | (Some updatedParticipant, d2) \<Rightarrow>
                  (case findOnlineCompatiblePartner e updatedParticipant text_chat d2 of
                     (None, d3) \<Rightarrow> (skipped updatedParticipant c, d3)
                   | (Some compatiblePartner, d3) \<Rightarrow>
                       (case createMatchedSession e updatedParticipant compatiblePartner text_chat d3 of
                          (Some newSession, d4) \<Rightarrow>
                            (toast ''New connection!''
                               (connected newSession compatiblePartner (skipped updatedParticipant c)), d4)
                        | (None, d4) \<Rightarrow> (skipped updatedParticipant c, d4))))
         | _ \<Rightarrow> (c, d)))"

definition stopChat :: "env \<Rightarrow> client \<times> db \<Rightarrow> client \<times> db" where
  "stopChat e w =
     (case w of (c, d) \<Rightarrow>
        let d2 = (case currentParticipant c of
                    None \<Rightarrow> d
                  | Some participant \<Rightarrow>
                      mark_left e (p_id participant)
                        (case currentSession c of
                           None \<Rightarrow> d
                         | Some session \<Rightarrow> end_session e (cs_id session) d))
        in ((stopHeartbeat c)\<lparr>currentSession := None, currentParticipant := None, partner := None,
              shown_messages := [], isConnected := False, isSearching := False\<rparr>, d2))"


text \<open>
  The \<^verbatim>\<open>INSERT\<close> handler of the message subscription, and \<^verbatim>\<open>loadMessages\<close>. The array sort
  of the handler is stable and compares \<^verbatim>\<open>sent_at\<close>.
\<close>

definition on_message_insert :: "Message \<Rightarrow> client \<Rightarrow> client" where
  "on_message_insert newMessage c =
     (case currentSession c of
        None \<Rightarrow> c
      | Some session \<Rightarrow>
          if m_session_id newMessage \<noteq> cs_id session then c
          else c\<lparr>shown_messages :=
                   (if list_ex (\<lambda>msg. m_id msg = m_id newMessage) (shown_messages c)
                    then shown_messages c
                    else sort_key m_sent_at (shown_messages c @ [newMessage]))\<rparr>)"

definition loadMessages :: "env \<Rightarrow> client \<Rightarrow> db \<Rightarrow> client" where
  "loadMessages e c d =
     (case currentSession c of
        None \<Rightarrow> c\<lparr>shown_messages := []\<rparr>
      | Some session \<Rightarrow>
          (case select_messages e (cs_id session) d of
             None \<Rightarrow> c\<lparr>shown_messages := []\<rparr>
           | Some data \<Rightarrow> c\<lparr>shown_messages := data\<rparr>))"

text \<open>
  The \<^verbatim>\<open>UPDATE\<close> handler of the partner subscription. The subscription exists while the
  client has a partner and a session, and the feed filters on the partner's identifier.
  The update of \<^verbatim>\<open>chat_sessions\<close> in the offline branch is a builder statement with no
  \<^verbatim>\<open>await\<close> and no callback.
\<close>

definition on_partner_update :: "env \<Rightarrow> Participant \<Rightarrow> client \<times> db \<Rightarrow> client \<times> db" where
  "on_partner_update e updatedPartner w =
     (case w of (c, d) \<Rightarrow>
        (case (partner c, currentSession c) of
           (Some p, Some session) \<Rightarrow>
             if p_id updatedPartner \<noteq> p_id p then (c, d)
             else if \<not> p_is_online updatedPartner
             then ((toast ''Partner disconnected'' c)\<lparr>partner := None, isConnected := False\<rparr>,
                   unawaited (end_session e (cs_id session)) d)
             else (c\<lparr>partner := Some updatedPartner\<rparr>, d)
         | _ \<Rightarrow> (c, d)))"




text \<open>The status the store holds for a session identifier.\<close>

definition session_status :: "db \<Rightarrow> nat \<Rightarrow> SessionStatus option" where
  "session_status d sid = map_option cs_status (find (\<lambda>s. cs_id s = sid) (chat_sessions d))"


section \<open>Example stores and clients\<close>

definition quiet :: "store_call \<Rightarrow> bool" where
  "quiet call = False"

definition row_p :: "nat \<Rightarrow> nat option \<Rightarrow> GenderType \<Rightarrow> GenderType \<Rightarrow> bool \<Rightarrow> int \<Rightarrow> int \<Rightarrow> bool \<Rightarrow> Participant" where
  "row_p i sid g pg w j seen on =
     \<lparr>p_id = i, p_session_id = sid, p_name = ''n'', p_gender = g, p_preferred_gender = pg,
      p_is_waiting = w, p_joined_at = j, p_left_at = None, p_last_seen = seen, p_is_online = on\<rparr>"

definition row_s :: "nat \<Rightarrow> SessionStatus \<Rightarrow> int \<Rightarrow> int option \<Rightarrow> ChatSession" where
  "row_s i st t en =
     \<lparr>cs_id = i, cs_session_type = text_chat, cs_status = st, cs_created_at = t,
      cs_ended_at = en, cs_updated_at = t\<rparr>"

definition row_m :: "nat \<Rightarrow> nat \<Rightarrow> nat \<Rightarrow> string \<Rightarrow> int \<Rightarrow> Message" where
  "row_m i sid pid txt t =
     \<lparr>m_id = i, m_session_id = sid, m_participant_id = pid, m_content = txt, m_sent_at = t\<rparr>"


definition env_at :: "int \<Rightarrow> nat \<Rightarrow> env" where
  "env_at t i =
     \<lparr>clock = t, new_participant_id = i, new_session_id = i, new_message_id = i, fails = quiet\<rparr>"


definition pB :: Participant where
  "pB = row_p 2 None female any_gender True 200 99000 True"





text \<open>
  A store for the search at time 100000, seeker S (male, wants anyone): row 9 is online
  but its heartbeat stopped at 10000; rows 7 and 4 joined at the same instant, in this
  table order; row 5 joined earlier but wants only females.
\<close>

definition pS :: Participant where
  "pS = row_p 1 None male any_gender True 900 99000 True"

definition search_db :: db where
  "search_db =
     \<lparr>chat_sessions = [],
      participants = [pS,
                      row_p 9 None female any_gender True 100 10000 True,
                      row_p 5 None female female True 200 99000 True,
                      row_p 7 None female any_gender True 500 99000 True,
                      row_p 4 None female male True 500 99000 True],
      messages = []\<rparr>"

text \<open>
  The rows the candidate query of a search returns when it does not fail: the query runs
  on the store as the reaper call left it.
\<close>

definition search_window :: "env \<Rightarrow> Participant \<Rightarrow> db \<Rightarrow> Participant list" where
  "search_window e participant d =
     take 20 (sort_key p_joined_at (filter (candidate_row e participant) (participants (rpc_cleanup e d))))"

text \<open>The ordering key of the specification: sent timestamp, then identifier.\<close>

definition key_le :: "Message \<Rightarrow> Message \<Rightarrow> bool" where
  "key_le a b = (m_sent_at a < m_sent_at b \<or> (m_sent_at a = m_sent_at b \<and> m_id a \<le> m_id b))"

text \<open>Two messages of session 1 sent at the same instant; the table holds 2 before 1.\<close>

definition tie_db :: db where
  "tie_db =
     \<lparr>chat_sessions = [row_s 1 matched 1000 None],
      participants = [row_p 1 (Some 1) male any_gender False 100 5000 True,
                      row_p 2 (Some 1) female any_gender False 200 5000 True],
      messages = [row_m 2 1 1 ''hello'' 5000, row_m 1 1 2 ''hi'' 5000, row_m 3 1 2 ''first'' 4000]\<rparr>"

definition chat_client :: "nat \<Rightarrow> nat \<Rightarrow> Message list \<Rightarrow> client" where
  "chat_client me other ms =
     \<lparr>currentSession = Some (row_s 1 matched 1000 None),
      currentParticipant = Some (row_p me (Some 1) male any_gender False 100 5000 True),
      partner = Some (row_p other (Some 1) female any_gender False 200 5000 True),
      shown_messages = ms, isConnected = True, isSearching = False,
      heartbeatInterval = Some me, toasts = []\<rparr>"


text \<open>The identifiers of the participants whose seeking flag is set.\<close>

definition seeking_ids :: "db \<Rightarrow> nat set" where
  "seeking_ids d = p_id ` set (filter p_is_waiting (participants d))"

text \<open>
  A (identifier 1) and B (identifier 2) chatting in session 1, both live; in the second
  store a third participant C is seeking.
\<close>

definition chat_db :: db where
  "chat_db =
     \<lparr>chat_sessions = [row_s 1 matched 1000 None],
      participants = [row_p 1 (Some 1) male any_gender False 100 8000 True,
                      row_p 2 (Some 1) female any_gender False 200 8000 True],
      messages = [row_m 1 1 1 ''hi'' 5000]\<rparr>"

definition chat_db_seeker :: db where
  "chat_db_seeker =
     chat_db\<lparr>participants := participants chat_db @ [row_p 3 None female male True 300 8000 True]\<rparr>"




text \<open>A client that has not started, and a store with the single seeker B.\<close>

definition idle_client :: client where
  "idle_client =
     \<lparr>currentSession = None, currentParticipant = None, partner = None, shown_messages = [],
      isConnected = False, isSearching = False, heartbeatInterval = None, toasts = []\<rparr>"

definition lone_db :: db where
  "lone_db = \<lparr>chat_sessions = [], participants = [pB], messages = []\<rparr>"

text \<open>The row \<^verbatim>\<open>startChat\<close> inserts.\<close>

definition started_row :: "env \<Rightarrow> string \<Rightarrow> GenderType \<Rightarrow> GenderType \<Rightarrow> Participant" where
  "started_row e name gender preferredGender =
     \<lparr>p_id = new_participant_id e, p_session_id = None, p_name = js_trim name, p_gender = gender,
      p_preferred_gender = preferredGender, p_is_waiting = True, p_joined_at = clock e,
      p_left_at = None, p_last_seen = clock e, p_is_online = True\<rparr>"

text \<open>
  Session 1 with A's row swept offline by a reaper run that another client's search
  triggered; B is online, so the session is still matched.
\<close>

definition offline_db :: db where
  "offline_db =
     \<lparr>chat_sessions = [row_s 1 matched 1000 None],
      participants = [row_p 1 (Some 1) male any_gender False 100 8000 False,
                      row_p 2 (Some 1) female any_gender False 200 60000 True],
      messages = []\<rparr>"

section \<open>Properties of the reaper\<close>







section \<open>Pairing\<close>






section \<open>Partner search\<close>

lemma first_of_filter_min:
  assumes "sorted (map f xs)" "filter P xs = y # ys" "q \<in> set xs" "P q"
  shows "f y \<le> f q"
proof -
  have "sorted (map f (filter P xs))"
    using assms(1) by (rule sorted_filter)
  then have "\<forall>z \<in> set ys. f y \<le> f z"
    by (simp add: assms(2))
  moreover have "q \<in> set (filter P xs)"
    using assms(3,4) by simp
  then have "q \<in> set (y # ys)"
    by (simp only: assms(2))
  ultimately show ?thesis by auto
qed

lemma window_sorted: "sorted (map p_joined_at (search_window e s d))"
  by (simp add: search_window_def sorted_wrt_take flip: take_map)

lemma window_rows:
  "p \<in> set (search_window e s d) \<Longrightarrow> p \<in> set (participants (rpc_cleanup e d)) \<and> candidate_row e s p"
  by (auto simp: search_window_def dest: in_set_takeD)

text \<open>
  Claim C2, as the code has it. The search first runs the reaper, and that sweep is the
  only change it makes to the store. Its window is the first 20 rows, by join time, of
  the rows (after the sweep) that are seeking, online, not the seeker and seen within
  the last 30 seconds. It returns nothing exactly when the query fails or no row of
  the window is mutually compatible with the seeker; otherwise it returns a row of the
  window that is distinct from the seeker, seeking, online, live, mutually compatible,
  and joined no later than every mutually compatible row of the window.
\<close>

theorem findOnlineCompatiblePartner_result:
  fixes e seeker ct d
  defines "out \<equiv> findOnlineCompatiblePartner e seeker ct d"
  defines "window \<equiv> search_window e seeker d"
  shows "snd out = rpc_cleanup e d \<and>
         (fails e SelectCandidates \<longrightarrow> fst out = None) \<and>
         (\<not> fails e SelectCandidates \<longrightarrow>
            (fst out = None \<longleftrightarrow> (\<forall>p \<in> set window. \<not> mutually_compatible seeker p)) \<and>
            (\<forall>p. fst out = Some p \<longrightarrow>
               p \<in> set (participants (snd out)) \<and> p \<in> set window \<and>
               p_id p \<noteq> p_id seeker \<and> p_is_waiting p \<and> p_is_online p \<and>
               clock e - 30000 \<le> p_last_seen p \<and>
               (p_preferred_gender p = any_gender \<or> p_preferred_gender p = p_gender seeker) \<and>
               (p_preferred_gender seeker = any_gender \<or> p_preferred_gender seeker = p_gender p) \<and>
               (\<forall>q \<in> set window. mutually_compatible seeker q \<longrightarrow> p_joined_at p \<le> p_joined_at q)))"
proof -
  have db: "snd out = rpc_cleanup e d"
    by (simp add: out_def findOnlineCompatiblePartner_def Let_def select_candidates_def
        split: list.splits)
  have err: "fails e SelectCandidates \<Longrightarrow> fst out = None"
    by (simp add: out_def findOnlineCompatiblePartner_def Let_def select_candidates_def)
  have res: "fst out = (case filter (mutually_compatible seeker) window of [] \<Rightarrow> None | first # _ \<Rightarrow> Some first)"
    if "\<not> fails e SelectCandidates"
    using that
    by (auto simp: out_def window_def search_window_def findOnlineCompatiblePartner_def Let_def
        select_candidates_def split: list.splits)
  have none: "fst out = None \<longleftrightarrow> (\<forall>p \<in> set window. \<not> mutually_compatible seeker p)"
    if "\<not> fails e SelectCandidates"
  proof -
    have "fst out = None \<longleftrightarrow> filter (mutually_compatible seeker) window = []"
      by (simp add: res [OF that] split: list.splits)
    then show ?thesis
      by (simp add: filter_empty_conv)
  qed
  have some: "p \<in> set (participants (snd out)) \<and> p \<in> set window \<and>
               p_id p \<noteq> p_id seeker \<and> p_is_waiting p \<and> p_is_online p \<and>
               clock e - 30000 \<le> p_last_seen p \<and>
               (p_preferred_gender p = any_gender \<or> p_preferred_gender p = p_gender seeker) \<and>
               (p_preferred_gender seeker = any_gender \<or> p_preferred_gender seeker = p_gender p) \<and>
               (\<forall>q \<in> set window. mutually_compatible seeker q \<longrightarrow> p_joined_at p \<le> p_joined_at q)"
    if ok: "\<not> fails e SelectCandidates" and p: "fst out = Some p" for p
  proof -
    from p obtain rest where f: "filter (mutually_compatible seeker) window = p # rest"
      by (auto simp: res [OF ok] split: list.splits)
    then have "p \<in> set (filter (mutually_compatible seeker) window)"
      by simp
    then have w: "p \<in> set window" and c: "mutually_compatible seeker p"
      by simp_all
    from w have r: "p \<in> set (participants (rpc_cleanup e d))" "candidate_row e seeker p"
      using window_rows by (simp_all add: window_def)
    have m: "\<forall>q \<in> set window. mutually_compatible seeker q \<longrightarrow> p_joined_at p \<le> p_joined_at q"
      using first_of_filter_min [OF window_sorted f [unfolded window_def]]
      by (simp add: window_def)
    show ?thesis
      using w c r m by (simp add: db candidate_row_def mutually_compatible_def Let_def)
  qed
  show ?thesis
    using db err none some by blast
qed

lemmas search_defs = pS_def search_db_def row_p_def env_at_def quiet_def findOnlineCompatiblePartner_def
  rpc_cleanup_def cleanup_offline_participants_def mark_offline_row_def liveness_threshold_def
  select_candidates_def candidate_row_def mutually_compatible_def search_window_def

theorem findOnlineCompatiblePartner_result_witness:
  "\<not> fails (env_at 100000 0) SelectCandidates \<and>
   map p_id (search_window (env_at 100000 0) pS search_db) = [5, 7, 4] \<and>
   fst (findOnlineCompatiblePartner (env_at 100000 0) pS text_chat search_db)
     = Some (row_p 7 None female any_gender True 500 99000 True) \<and>
   snd (findOnlineCompatiblePartner (env_at 100000 0) pS text_chat search_db)
     = rpc_cleanup (env_at 100000 0) search_db"
  using findOnlineCompatiblePartner_result
      [where e = "env_at 100000 0" and seeker = pS and ct = text_chat and d = search_db]
  by (simp add: search_defs)

text \<open>
  The claim as written fails twice on \<^const>\<open>search_db\<close>: the search changes the store
  (row 9 is swept offline), and of the two compatible rows that joined at the same
  instant it returns the one the table holds first, identifier 7 rather than 4; with
  the table in the opposite order it returns 4.
\<close>

theorem findPartner_counterexample:
  "snd (findOnlineCompatiblePartner (env_at 100000 0) pS text_chat search_db) \<noteq> search_db \<and>
   map p_is_online (participants (snd (findOnlineCompatiblePartner (env_at 100000 0) pS text_chat search_db)))
     = [True, False, True, True, True] \<and>
   map_option p_id (fst (findOnlineCompatiblePartner (env_at 100000 0) pS text_chat search_db)) = Some 7 \<and>
   map_option p_id (fst (findOnlineCompatiblePartner (env_at 100000 0)
       (row_p 1 None male any_gender True 900 99000 True) text_chat
       (search_db\<lparr>participants := rev (participants search_db)\<rparr>))) = Some 4"
  by (simp add: search_defs)

section \<open>Message history and the message feed\<close>

lemma history_sorted:
  "select_messages e sid d = Some ms \<Longrightarrow>
     sorted (map m_sent_at ms) \<and> mset ms = mset (filter (\<lambda>m. m_session_id m = sid) (messages d))"
  by (auto simp: select_messages_def split: if_splits)

lemma distinct_ids_sort:
  "distinct (map m_id (sort_key f xs)) = distinct (map m_id xs)"
  by (rule mset_eq_imp_distinct_iff) simp

lemma feed_keeps_distinct:
  "distinct (map m_id (shown_messages c)) \<Longrightarrow>
     distinct (map m_id (shown_messages (on_message_insert m c)))"
  by (auto simp: on_message_insert_def distinct_ids_sort list_ex_iff split: option.splits)

lemma feed_duplicate:
  "m_id m \<in> m_id ` set (shown_messages c) \<Longrightarrow> on_message_insert m c = c"
  by (auto simp: on_message_insert_def list_ex_iff split: option.splits)

text \<open>
  Claim C6, as the code has it. The history that \<^verbatim>\<open>loadMessages\<close> puts into the
  transcript is non-decreasing by sent timestamp and, when the query succeeds, holds
  exactly the session's messages. A message whose identifier the transcript already
  holds leaves the transcript as it is when the feed delivers it again, and a
  transcript without repeated identifiers stays so under every delivery.
\<close>

theorem history_and_feed:
  "sorted (map m_sent_at (shown_messages (loadMessages e c d))) \<and>
   (\<forall>s. currentSession c = Some s \<and> \<not> fails e SelectMessages \<longrightarrow>
      mset (shown_messages (loadMessages e c d))
        = mset (filter (\<lambda>m. m_session_id m = cs_id s) (messages d))) \<and>
   (m_id m \<in> m_id ` set (shown_messages c) \<longrightarrow> on_message_insert m c = c) \<and>
   (distinct (map m_id (shown_messages c)) \<longrightarrow>
      distinct (map m_id (shown_messages (on_message_insert m c))))"
proof -
  have 1: "sorted (map m_sent_at (shown_messages (loadMessages e c d)))"
    by (auto simp: loadMessages_def dest: history_sorted split: option.splits)
  have 2: "mset (shown_messages (loadMessages e c d))
        = mset (filter (\<lambda>m. m_session_id m = cs_id s) (messages d))"
    if "currentSession c = Some s" "\<not> fails e SelectMessages" for s
    using that by (simp add: loadMessages_def select_messages_def)
  show ?thesis
    using 1 2 feed_duplicate feed_keeps_distinct by blast
qed

lemmas tie_defs = tie_db_def chat_client_def row_m_def row_s_def row_p_def env_at_def quiet_def
  loadMessages_def select_messages_def on_message_insert_def key_le_def

theorem history_and_feed_witness:
  "currentSession (chat_client 1 2 []) = Some (row_s 1 matched 1000 None) \<and>
   \<not> fails (env_at 9000 0) SelectMessages \<and>
   map m_id (shown_messages (loadMessages (env_at 9000 0) (chat_client 1 2 []) tie_db)) = [3, 2, 1] \<and>
   on_message_insert (row_m 2 1 1 ''hello'' 5000)
     (loadMessages (env_at 9000 0) (chat_client 1 2 []) tie_db)
     = loadMessages (env_at 9000 0) (chat_client 1 2 []) tie_db \<and>
   map m_id (shown_messages (on_message_insert (row_m 4 1 1 ''late'' 4500)
       (loadMessages (env_at 9000 0) (chat_client 1 2 []) tie_db))) = [3, 4, 2, 1]"
  using history_and_feed
      [where e = "env_at 9000 0" and c = "loadMessages (env_at 9000 0) (chat_client 1 2 []) tie_db"
         and d = tie_db and m = "row_m 2 1 1 ''hello'' 5000"]
  by (simp add: tie_defs)

text \<open>
  The claim as written fails on \<^const>\<open>tie_db\<close>: the query orders by \<^verbatim>\<open>sent_at\<close> alone,
  so the two messages sent at 5000 come back in table order, identifier 2 before 1,
  which is decreasing in the key (sent timestamp, identifier).
\<close>

theorem history_order_counterexample:
  "shown_messages (loadMessages (env_at 9000 0) (chat_client 1 2 []) tie_db)
     = [row_m 3 1 2 ''first'' 4000, row_m 2 1 1 ''hello'' 5000, row_m 1 1 2 ''hi'' 5000] \<and>
   \<not> key_le (row_m 2 1 1 ''hello'' 5000) (row_m 1 1 2 ''hi'' 5000) \<and>
   \<not> sorted_wrt key_le (shown_messages (loadMessages (env_at 9000 0) (chat_client 1 2 []) tie_db))"
  by (simp add: tie_defs)

section \<open>Sending a message\<close>

lemma last_dropWhile: "dropWhile P xs \<noteq> [] \<Longrightarrow> last (dropWhile P xs) = last xs"
  by (induction xs) (auto split: if_splits)

lemma trim_both_ends:
  assumes "trim_both P s \<noteq> []"
  shows "\<not> P (hd (trim_both P s)) \<and> \<not> P (last (trim_both P s))"
proof -
  define t where "t = dropWhile P s"
  define u where "u = dropWhile P (rev t)"
  have u: "u \<noteq> []" and tr: "trim_both P s = rev u"
    using assms by (simp_all add: trim_both_def t_def u_def)
  then have t: "t \<noteq> []"
    by (auto simp: u_def)
  have "hd (rev u) = last (rev t)"
    using u by (simp add: hd_rev u_def last_dropWhile)
  also have "\<dots> = hd t"
    using t by (simp add: last_rev)
  finally have "\<not> P (hd (rev u))"
    using t hd_dropWhile [of P s] by (simp add: t_def)
  moreover have "\<not> P (last (rev u))"
    using u hd_dropWhile [of P "rev t"] by (simp add: last_rev u_def)
  ultimately show ?thesis
    by (simp add: tr)
qed

lemma trim_both_fix:
  assumes "xs \<noteq> []" "\<not> Q (hd xs)" "\<not> Q (last xs)"
  shows "trim_both Q xs = xs"
proof -
  have "dropWhile Q xs = xs"
    using assms(1,2) by (cases xs) simp_all
  moreover have "dropWhile Q (rev xs) = rev xs"
    using assms(1,3) by (cases "rev xs") (simp_all add: hd_rev [symmetric])
  ultimately show ?thesis
    by (simp add: trim_both_def)
qed


lemma pg_trim_js_trim: "js_trim s \<noteq> [] \<Longrightarrow> pg_trim (js_trim s) = js_trim s"
proof -
  assume n: "js_trim s \<noteq> []"
  then have "\<not> js_whitespace (hd (js_trim s)) \<and> \<not> js_whitespace (last (js_trim s))"
    unfolding js_trim_def by (rule trim_both_ends)
  then have "hd (js_trim s) \<noteq> CHR '' '' \<and> last (js_trim s) \<noteq> CHR '' ''"
    by (auto simp: js_whitespace_def)
  then show ?thesis
    unfolding pg_trim_def using n by (intro trim_both_fix) simp_all
qed






section \<open>Skip\<close>

lemma find_db: "snd (findOnlineCompatiblePartner e s ct d) = rpc_cleanup e d"
  by (simp add: findOnlineCompatiblePartner_def Let_def select_candidates_def split: list.splits)

lemma seeking_end_session: "seeking_ids (end_session e sid d) = seeking_ids d"
  by (simp add: seeking_ids_def end_session_def)

lemma seeking_map:
  assumes "\<And>r. p_id (f r) = p_id r" "\<And>r. p_is_waiting (f r) \<Longrightarrow> p_is_waiting r \<or> p_id r \<in> X"
  shows "p_id ` set (filter p_is_waiting (map f rs)) \<subseteq> p_id ` set (filter p_is_waiting rs) \<union> X"
proof
  fix i assume "i \<in> p_id ` set (filter p_is_waiting (map f rs))"
  then obtain r where r: "r \<in> set rs" "p_is_waiting (f r)" "i = p_id (f r)"
    by auto
  then have "p_is_waiting r \<or> p_id r \<in> X"
    using assms(2) by blast
  then show "i \<in> p_id ` set (filter p_is_waiting rs) \<union> X"
    using r assms(1) by auto
qed

lemma seeking_reset: "seeking_ids (snd (reset_participant e pid d)) \<subseteq> seeking_ids d \<union> {pid}"
proof (cases "fails e ResetParticipant")
  case True
  then show ?thesis by (auto simp: reset_participant_def)
next
  case False
  have "p_id ` set (filter p_is_waiting (map (reset_row e pid) (participants d)))
          \<subseteq> p_id ` set (filter p_is_waiting (participants d)) \<union> {pid}"
    by (rule seeking_map) (auto simp: reset_row_def split: if_splits)
  with False show ?thesis
    by (simp add: reset_participant_def Let_def seeking_ids_def split: list.splits)
qed

lemma seeking_cleanup: "seeking_ids (rpc_cleanup e d) \<subseteq> seeking_ids d"
proof -
  have "p_id ` set (filter p_is_waiting (map (mark_offline_row (clock e)) (participants d)))
          \<subseteq> p_id ` set (filter p_is_waiting (participants d)) \<union> {}"
    by (rule seeking_map) (auto simp: mark_offline_row_def split: if_splits)
  then show ?thesis
    by (simp add: rpc_cleanup_def cleanup_offline_participants_def Let_def seeking_ids_def)
qed

lemma seeking_delete: "seeking_ids (delete_session e sid d) \<subseteq> seeking_ids d"
  by (auto simp: delete_session_def Let_def seeking_ids_def)

lemma seeking_bind: "seeking_ids (snd (bind_participants e sid ids d)) \<subseteq> seeking_ids d"
proof -
  have "p_id ` set (filter p_is_waiting (map (bind_row e sid ids) (participants d)))
          \<subseteq> p_id ` set (filter p_is_waiting (participants d)) \<union> {}"
    by (rule seeking_map) (auto simp: bind_row_def split: if_splits)
  then show ?thesis
    by (simp add: bind_participants_def seeking_ids_def)
qed

lemma seeking_insert_session: "seeking_ids (snd (insert_session e ct d)) = seeking_ids d"
  by (simp add: insert_session_def seeking_ids_def)

lemma seeking_pair: "seeking_ids (snd (createMatchedSession e p1 p2 ct d)) \<subseteq> seeking_ids d"
proof -
  obtain r d1 where i: "insert_session e ct d = (r, d1)"
    by (cases "insert_session e ct d")
  then have d1: "seeking_ids d1 = seeking_ids d"
    using seeking_insert_session [of e ct d] by simp
  show ?thesis
  proof (cases r)
    case None
    with i d1 show ?thesis by (simp add: createMatchedSession_def)
  next
    case (Some session)
    obtain b d2 where u: "bind_participants e (cs_id session) [p_id p1, p_id p2] d1 = (b, d2)"
      by (cases "bind_participants e (cs_id session) [p_id p1, p_id p2] d1")
    then have d2: "seeking_ids d2 \<subseteq> seeking_ids d"
      using seeking_bind [of e "cs_id session" "[p_id p1, p_id p2]" d1] d1 by simp
    show ?thesis
      using i Some u d2 seeking_delete [of e "cs_id session" d2]
      by (cases b) (auto simp: createMatchedSession_def)
  qed
qed

lemma reset_single:
  assumes "\<not> fails e ResetParticipant" "filter (\<lambda>r. p_id r = pid) (participants d) = [row]"
  shows "reset_participant e pid d =
           (Some (row\<lparr>p_session_id := None, p_is_waiting := True, p_last_seen := clock e\<rparr>),
            d\<lparr>participants := map (reset_row e pid) (participants d)\<rparr>)"
proof -
  have "row \<in> set (filter (\<lambda>r. p_id r = pid) (participants d))"
    by (simp add: assms(2))
  then have id: "p_id row = pid"
    by simp
  have "filter (\<lambda>r. p_id r = pid) (map (reset_row e pid) (participants d))
          = map (reset_row e pid) (filter (\<lambda>r. p_id r = pid) (participants d))"
    by (simp add: filter_map comp_def reset_row_def cong: filter_cong)
  then have "filter (\<lambda>r. p_id r = pid) (map (reset_row e pid) (participants d))
          = [row\<lparr>p_session_id := None, p_is_waiting := True, p_last_seen := clock e\<rparr>]"
    by (simp add: assms(2) reset_row_def id)
  then show ?thesis
    using assms(1) by (simp add: reset_participant_def Let_def)
qed

text \<open>
  Claim C3, as the code has it. When a client that holds a session and a participant
  skips (and the store accepts both updates), the session's rows get status ended and
  the end time; the invoker's row gets seeking true, no bound session and a fresh
  heartbeat; every other participant row, the partner's included, is left exactly as
  it was; and the search and pairing run at once with the invoker as the seeker, on
  the store so updated. Over the whole operation no participant other than the invoker
  becomes seeking.
\<close>

theorem skipChat_effect:
  fixes e c d s p row
  defines "d2 \<equiv> snd (reset_participant e (p_id p) (end_session e (cs_id s) d))"
  defines "me \<equiv> row\<lparr>p_session_id := None, p_is_waiting := True, p_last_seen := clock e\<rparr>"
  assumes "currentSession c = Some s" "currentParticipant c = Some p"
    and "\<not> fails e EndSession" "\<not> fails e ResetParticipant"
    and "filter (\<lambda>r. p_id r = p_id p) (participants d) = [row]"
  shows "length (chat_sessions d2) = length (chat_sessions d) \<and>
         (\<forall>k < length (chat_sessions d).
            chat_sessions d2 ! k =
              (if cs_id (chat_sessions d ! k) = cs_id s
               then (chat_sessions d ! k)\<lparr>cs_status := ended, cs_ended_at := Some (clock e),
                      cs_updated_at := clock e\<rparr>
               else chat_sessions d ! k)) \<and>
         length (participants d2) = length (participants d) \<and>
         (\<forall>k < length (participants d).
            participants d2 ! k =
              (if p_id (participants d ! k) = p_id p
               then (participants d ! k)\<lparr>p_session_id := None, p_is_waiting := True,
                      p_last_seen := clock e\<rparr>
               else participants d ! k)) \<and>
         skipChat e (c, d) =
           (case findOnlineCompatiblePartner e me text_chat d2 of
              (None, d3) \<Rightarrow> (skipped me c, d3)
            | (Some compatiblePartner, d3) \<Rightarrow>
                (case createMatchedSession e me compatiblePartner text_chat d3 of
                   (Some newSession, d4) \<Rightarrow>
                     (toast ''New connection!'' (connected newSession compatiblePartner (skipped me c)), d4)
                 | (None, d4) \<Rightarrow> (skipped me c, d4))) \<and>
         seeking_ids (snd (skipChat e (c, d))) \<subseteq> seeking_ids d \<union> {p_id p}"
proof -
  have part: "participants (end_session e (cs_id s) d) = participants d"
    by (simp add: end_session_def)
  have r: "reset_participant e (p_id p) (end_session e (cs_id s) d) =
             (Some me, (end_session e (cs_id s) d)\<lparr>participants := map (reset_row e (p_id p)) (participants d)\<rparr>)"
    using reset_single [of e "p_id p" "end_session e (cs_id s) d" row] assms(5-7)
    by (simp add: part me_def)
  have d2: "d2 = d\<lparr>chat_sessions := map (end_row e (cs_id s)) (chat_sessions d),
                   participants := map (reset_row e (p_id p)) (participants d)\<rparr>"
  proof -
    have "d2 = (end_session e (cs_id s) d)\<lparr>participants := map (reset_row e (p_id p)) (participants d)\<rparr>"
      by (simp add: d2_def r)
    then show ?thesis
      using assms(5) by (simp add: end_session_def)
  qed
  have 1: "\<forall>k < length (chat_sessions d).
            chat_sessions d2 ! k =
              (if cs_id (chat_sessions d ! k) = cs_id s
               then (chat_sessions d ! k)\<lparr>cs_status := ended, cs_ended_at := Some (clock e),
                      cs_updated_at := clock e\<rparr>
               else chat_sessions d ! k)"
    by (simp add: d2 end_row_def)
  have 2: "\<forall>k < length (participants d).
            participants d2 ! k =
              (if p_id (participants d ! k) = p_id p
               then (participants d ! k)\<lparr>p_session_id := None, p_is_waiting := True,
                      p_last_seen := clock e\<rparr>
               else participants d ! k)"
    by (simp add: d2 reset_row_def)
  have 3: "skipChat e (c, d) =
           (case findOnlineCompatiblePartner e me text_chat d2 of
              (None, d3) \<Rightarrow> (skipped me c, d3)
            | (Some compatiblePartner, d3) \<Rightarrow>
                (case createMatchedSession e me compatiblePartner text_chat d3 of
                   (Some newSession, d4) \<Rightarrow>
                     (toast ''New connection!'' (connected newSession compatiblePartner (skipped me c)), d4)
                 | (None, d4) \<Rightarrow> (skipped me c, d4)))"
    using assms(3,4) r by (simp add: skipChat_def d2_def)
  have s2: "seeking_ids d2 \<subseteq> seeking_ids d \<union> {p_id p}"
    unfolding d2_def
    using seeking_reset [of e "p_id p" "end_session e (cs_id s) d"]
    by (simp add: seeking_end_session)
  have 4: "seeking_ids (snd (skipChat e (c, d))) \<subseteq> seeking_ids d \<union> {p_id p}"
  proof -
    obtain f d3 where f: "findOnlineCompatiblePartner e me text_chat d2 = (f, d3)"
      by (cases "findOnlineCompatiblePartner e me text_chat d2")
    then have "d3 = rpc_cleanup e d2"
      using find_db [of e me text_chat d2] by simp
    then have d3: "seeking_ids d3 \<subseteq> seeking_ids d \<union> {p_id p}"
      using seeking_cleanup [of e d2] s2 by blast
    show ?thesis
    proof (cases f)
      case None
      with f d3 show ?thesis by (simp add: 3)
    next
      case (Some cp)
      obtain r4 d4 where p4: "createMatchedSession e me cp text_chat d3 = (r4, d4)"
        by (cases "createMatchedSession e me cp text_chat d3")
      then have "seeking_ids d4 \<subseteq> seeking_ids d3"
        using seeking_pair [of e me cp text_chat d3] by simp
      with d3 have "seeking_ids d4 \<subseteq> seeking_ids d \<union> {p_id p}"
        by blast
      with f Some p4 show ?thesis
        by (cases r4) (simp_all add: 3)
    qed
  qed
  show ?thesis
    using 1 2 3 4 by (simp add: d2)
qed

lemmas skip_defs = chat_db_def chat_db_seeker_def chat_client_def row_m_def row_s_def row_p_def
  env_at_def quiet_def skipChat_def end_session_def end_row_def reset_participant_def reset_row_def
  findOnlineCompatiblePartner_def rpc_cleanup_def cleanup_offline_participants_def
  mark_offline_row_def end_offline_row_def all_offline_def liveness_threshold_def
  select_candidates_def candidate_row_def mutually_compatible_def createMatchedSession_def
  insert_session_def matched_row_def bind_participants_def bind_row_def skipped_def connected_def
  toast_def seeking_ids_def

theorem skipChat_effect_witness:
  "currentSession (chat_client 1 2 []) = Some (row_s 1 matched 1000 None) \<and>
   currentParticipant (chat_client 1 2 []) = Some (row_p 1 (Some 1) male any_gender False 100 5000 True) \<and>
   filter (\<lambda>r. p_id r = 1) (participants chat_db_seeker)
     = [row_p 1 (Some 1) male any_gender False 100 8000 True] \<and>
   snd (skipChat (env_at 9000 20) (chat_client 1 2 [], chat_db_seeker)) =
     \<lparr>chat_sessions = [(row_s 1 ended 1000 (Some 9000))\<lparr>cs_updated_at := 9000\<rparr>,
                       row_s 20 matched 9000 None],
      participants = [row_p 1 (Some 20) male any_gender False 100 9000 True,
                      row_p 2 (Some 1) female any_gender False 200 8000 True,
                      row_p 3 (Some 20) female male False 300 9000 True],
      messages = [row_m 1 1 1 ''hi'' 5000]\<rparr> \<and>
   toasts (fst (skipChat (env_at 9000 20) (chat_client 1 2 [], chat_db_seeker)))
     = [''Skipped'', ''New connection!'']"
  using skipChat_effect
      [where c = "chat_client 1 2 []" and s = "row_s 1 matched 1000 None"
         and p = "row_p 1 (Some 1) male any_gender False 100 5000 True" and e = "env_at 9000 20"
         and d = chat_db_seeker and row = "row_p 1 (Some 1) male any_gender False 100 8000 True"]
  by (simp add: skip_defs)

text \<open>
  The claim as written fails: after A skips in \<^const>\<open>chat_db\<close>, the session is ended and
  A is seeking with no bound session, but B's row is untouched: seeking false and still
  bound to session 1.
\<close>

theorem skipChat_counterexample:
  "snd (skipChat (env_at 9000 20) (chat_client 1 2 [], chat_db)) =
     \<lparr>chat_sessions = [(row_s 1 ended 1000 (Some 9000))\<lparr>cs_updated_at := 9000\<rparr>],
      participants = [row_p 1 None male any_gender True 100 9000 True,
                      row_p 2 (Some 1) female any_gender False 200 8000 True],
      messages = [row_m 1 1 1 ''hi'' 5000]\<rparr> \<and>
   p_is_waiting (participants (snd (skipChat (env_at 9000 20) (chat_client 1 2 [], chat_db))) ! 1) = False \<and>
   p_session_id (participants (snd (skipChat (env_at 9000 20) (chat_client 1 2 [], chat_db))) ! 1) = Some 1"
  by (simp add: skip_defs)

section \<open>Stop\<close>

lemma seeking_left:
  "p_id ` set (filter p_is_waiting (map (left_row e pid) rs))
     = p_id ` set (filter p_is_waiting rs) - {pid}"
proof (intro equalityI subsetI)
  fix i assume "i \<in> p_id ` set (filter p_is_waiting (map (left_row e pid) rs))"
  then obtain r where r: "r \<in> set rs" "p_is_waiting (left_row e pid r)" "i = p_id (left_row e pid r)"
    by auto
  then have "p_id r \<noteq> pid" "p_is_waiting r" "i = p_id r"
    by (auto simp: left_row_def split: if_splits)
  with r(1) show "i \<in> p_id ` set (filter p_is_waiting rs) - {pid}"
    by auto
next
  fix i assume "i \<in> p_id ` set (filter p_is_waiting rs) - {pid}"
  then obtain r where r: "r \<in> set rs" "p_is_waiting r" "i = p_id r" "p_id r \<noteq> pid"
    by auto
  then have "left_row e pid r = r"
    by (simp add: left_row_def)
  moreover from r(1) have "left_row e pid r \<in> left_row e pid ` set rs"
    by (rule imageI)
  ultimately have "left_row e pid r \<in> set (filter p_is_waiting (map (left_row e pid) rs))"
    "i = p_id (left_row e pid r)"
    using r by simp_all
  then show "i \<in> p_id ` set (filter p_is_waiting (map (left_row e pid) rs))"
    by blast
qed

text \<open>
  Claim C5, as the code has it. When a client that holds a participant stops (and the
  store accepts the update), the rows of the session the client holds, if any, get
  status ended and the end time; the invoker's row gets seeking false, online false and
  the departure time, and keeps its bound session; every other participant row, the
  partner's included, is left exactly as it was, so nobody but the invoker changes its
  seeking or online flag and nobody's bound session is cleared; no message changes;
  and the client's state is reset.
\<close>

theorem stopChat_effect:
  fixes e c d p
  defines "out \<equiv> stopChat e (c, d)"
  assumes "currentParticipant c = Some p" "\<not> fails e MarkLeft"
  shows "length (participants (snd out)) = length (participants d) \<and>
         (\<forall>k < length (participants d).
            participants (snd out) ! k =
              (if p_id (participants d ! k) = p_id p
               then (participants d ! k)\<lparr>p_is_waiting := False, p_left_at := Some (clock e),
                      p_is_online := False\<rparr>
               else participants d ! k)) \<and>
         length (chat_sessions (snd out)) = length (chat_sessions d) \<and>
         (\<forall>k < length (chat_sessions d).
            chat_sessions (snd out) ! k =
              (if \<not> fails e EndSession \<and>
                  map_option cs_id (currentSession c) = Some (cs_id (chat_sessions d ! k))
               then (chat_sessions d ! k)\<lparr>cs_status := ended, cs_ended_at := Some (clock e),
                      cs_updated_at := clock e\<rparr>
               else chat_sessions d ! k)) \<and>
         messages (snd out) = messages d \<and>
         seeking_ids (snd out) = seeking_ids d - {p_id p} \<and>
         fst out = c\<lparr>currentSession := None, currentParticipant := None, partner := None,
                      shown_messages := [], isConnected := False, isSearching := False,
                      heartbeatInterval := None\<rparr>"
proof -
  define d1 where "d1 = (case currentSession c of None \<Rightarrow> d | Some session \<Rightarrow> end_session e (cs_id session) d)"
  have out: "out = (c\<lparr>currentSession := None, currentParticipant := None, partner := None,
                      shown_messages := [], isConnected := False, isSearching := False,
                      heartbeatInterval := None\<rparr>,
                    d1\<lparr>participants := map (left_row e (p_id p)) (participants d1)\<rparr>)"
    using assms(2,3) by (simp add: out_def stopChat_def Let_def mark_left_def d1_def stopHeartbeat_def)
  have p1: "participants d1 = participants d" and m1: "messages d1 = messages d"
    by (simp_all add: d1_def end_session_def split: option.splits)
  have s1: "chat_sessions d1 =
              map (\<lambda>r. if \<not> fails e EndSession \<and> map_option cs_id (currentSession c) = Some (cs_id r)
                        then r\<lparr>cs_status := ended, cs_ended_at := Some (clock e), cs_updated_at := clock e\<rparr>
                        else r) (chat_sessions d)"
    by (auto simp: d1_def end_session_def end_row_def map_idI split: option.splits)
  have 1: "\<forall>k < length (participants d).
            participants (snd out) ! k =
              (if p_id (participants d ! k) = p_id p
               then (participants d ! k)\<lparr>p_is_waiting := False, p_left_at := Some (clock e),
                      p_is_online := False\<rparr>
               else participants d ! k)"
    by (simp add: out p1 left_row_def)
  have 2: "\<forall>k < length (chat_sessions d).
            chat_sessions (snd out) ! k =
              (if \<not> fails e EndSession \<and>
                  map_option cs_id (currentSession c) = Some (cs_id (chat_sessions d ! k))
               then (chat_sessions d ! k)\<lparr>cs_status := ended, cs_ended_at := Some (clock e),
                      cs_updated_at := clock e\<rparr>
               else chat_sessions d ! k)"
    by (simp add: out s1)
  have 3: "seeking_ids (snd out) = seeking_ids d - {p_id p}"
    using seeking_left [of e "p_id p" "participants d"] by (simp add: out seeking_ids_def p1)
  show ?thesis
    using 1 2 3 by (simp add: out p1 m1 s1)
qed

lemmas stop_defs = chat_db_def chat_client_def row_m_def row_s_def row_p_def env_at_def quiet_def
  stopChat_def end_session_def end_row_def mark_left_def left_row_def stopHeartbeat_def

theorem stopChat_effect_witness:
  "currentParticipant (chat_client 1 2 []) = Some (row_p 1 (Some 1) male any_gender False 100 5000 True) \<and>
   \<not> fails (env_at 9000 0) MarkLeft \<and>
   snd (stopChat (env_at 9000 0) (chat_client 1 2 [], chat_db)) =
     \<lparr>chat_sessions = [(row_s 1 ended 1000 (Some 9000))\<lparr>cs_updated_at := 9000\<rparr>],
      participants = [(row_p 1 (Some 1) male any_gender False 100 8000 False)\<lparr>p_left_at := Some 9000\<rparr>,
                      row_p 2 (Some 1) female any_gender False 200 8000 True],
      messages = [row_m 1 1 1 ''hi'' 5000]\<rparr> \<and>
   currentSession (fst (stopChat (env_at 9000 0) (chat_client 1 2 [], chat_db))) = None"
  using stopChat_effect
      [where c = "chat_client 1 2 []" and p = "row_p 1 (Some 1) male any_gender False 100 5000 True"
         and e = "env_at 9000 0" and d = chat_db]
  by (simp add: stop_defs)

text \<open>
  The claim as written fails: after A stops in \<^const>\<open>chat_db\<close>, both A's row and B's
  row are still bound to session 1; B's row is not touched at all.
\<close>

theorem stopChat_counterexample:
  "map p_session_id (participants (snd (stopChat (env_at 9000 0) (chat_client 1 2 [], chat_db))))
     = [Some 1, Some 1] \<and>
   participants (snd (stopChat (env_at 9000 0) (chat_client 1 2 [], chat_db))) ! 1
     = participants chat_db ! 1 \<and>
   map cs_status (chat_sessions (snd (stopChat (env_at 9000 0) (chat_client 1 2 [], chat_db)))) = [ended]"
  by (simp add: stop_defs)

section \<open>Ended sessions\<close>





























section \<open>A failed start\<close>

lemma pair_none_keeps:
  assumes "fst (createMatchedSession e p1 p2 ct d) = None" "r \<in> set (participants d)"
    "p_session_id r = None"
  shows "r \<in> set (participants (snd (createMatchedSession e p1 p2 ct d)))"
proof (cases "fails e InsertSession \<or> new_session_id e \<in> cs_id ` set (chat_sessions d)")
  case True
  then show ?thesis
    using assms(2) by (auto simp: createMatchedSession_def insert_session_def)
next
  case False
  with assms(1) have f: "fails e BindParticipants"
    by (auto simp: createMatchedSession_def insert_session_def bind_participants_def
        split: if_splits)
  have "participants (snd (createMatchedSession e p1 p2 ct d)) =
          participants (delete_session e (new_session_id e)
             (d\<lparr>chat_sessions := chat_sessions d @ [matched_row e ct]\<rparr>))"
    using False f
    by (simp add: createMatchedSession_def insert_session_def bind_participants_def matched_row_def)
  then show ?thesis
    using assms(2,3) by (simp add: delete_session_def Let_def)
qed

lemma cleanup_keeps_fresh:
  assumes "r \<in> set (participants d)" "clock e - 30000 \<le> p_last_seen r"
  shows "r \<in> set (participants (rpc_cleanup e d))"
proof -
  have "mark_offline_row (clock e) r = r"
    using assms(2) by (simp add: mark_offline_row_def liveness_threshold_def)
  moreover have "mark_offline_row (clock e) r \<in> mark_offline_row (clock e) ` set (participants d)"
    using assms(1) by (rule imageI)
  ultimately show ?thesis
    using assms(1) by (auto simp: rpc_cleanup_def cleanup_offline_participants_def Let_def)
qed

text \<open>
  Claim C9. When \<^verbatim>\<open>startChat\<close> has inserted the participant row and then ends in its
  error branch (the toast ``Error''), the inserted row is still in the store, seeking,
  online and unbound; the client is no longer searching and its heartbeat is stopped;
  and the row passes the candidate filter of every other seeker's search for the next
  30 seconds.
\<close>

theorem startChat_failure_keeps_row:
  fixes e name gender preferredGender chatType c d
  defines "out \<equiv> startChat e name gender preferredGender chatType (c, d)"
  defines "row \<equiv> started_row e name gender preferredGender"
  assumes "\<not> fails e InsertParticipant" "new_participant_id e \<notin> p_id ` set (participants d)"
    "js_trim name \<noteq> []"
    and "toasts (fst out) = toasts c @ [''Error'']"
  shows "row \<in> set (participants (snd out)) \<and>
         p_is_waiting row \<and> p_is_online row \<and> p_session_id row = None \<and>
         isSearching (fst out) = False \<and> heartbeatInterval (fst out) = None \<and>
         (\<forall>e' seeker. p_id seeker \<noteq> p_id row \<and> clock e' \<le> clock e + 30000 \<longrightarrow>
            candidate_row e' seeker row)"
proof -
  define d1 where "d1 = d\<lparr>participants := participants d @ [row]\<rparr>"
  define c1 where "c1 = c\<lparr>isSearching := True, currentParticipant := Some row, heartbeatInterval := Some (p_id row)\<rparr>"
  have ins: "insert_participant e (js_trim name) gender preferredGender d = (Some row, d1)"
    using assms(3-5)
    by (simp add: insert_participant_def Let_def row_def started_row_def d1_def pg_trim_js_trim)
  obtain f d3 where f: "findOnlineCompatiblePartner e row chatType d1 = (f, d3)"
    by (cases "findOnlineCompatiblePartner e row chatType d1")
  then have d3: "d3 = rpc_cleanup e d1"
    using find_db [of e row chatType d1] by simp
  have "row \<in> set (participants d1)"
    by (simp add: d1_def)
  then have r3: "row \<in> set (participants d3)"
    unfolding d3 by (rule cleanup_keeps_fresh) (simp add: row_def started_row_def)
  have flags: "p_is_waiting row \<and> p_is_online row \<and> p_session_id row = None"
    by (simp add: row_def started_row_def)
  have later: "\<forall>e' seeker. p_id seeker \<noteq> p_id row \<and> clock e' \<le> clock e + 30000 \<longrightarrow>
            candidate_row e' seeker row"
    by (auto simp: candidate_row_def row_def started_row_def)
  show ?thesis
  proof (cases f)
    case None
    then have "toasts (fst out) = toasts c @ [''Searching...'']"
      using ins f
      by (simp add: out_def startChat_def startHeartbeat_def unawaited_def toast_def)
    with assms(6) show ?thesis
      by simp
  next
    case (Some compatiblePartner)
    obtain r4 d4 where p4: "createMatchedSession e row compatiblePartner chatType d3 = (r4, d4)"
      by (cases "createMatchedSession e row compatiblePartner chatType d3")
    show ?thesis
    proof (cases r4)
      case s: (Some session)
      then have "toasts (fst out) = toasts c @ [''Connected!'']"
        using ins f Some p4
        by (simp add: out_def startChat_def startHeartbeat_def unawaited_def toast_def connected_def)
      with assms(6) show ?thesis
        by simp
    next
      case n: None
      then have out: "out = (startChat_failed c1, d4)"
        using ins f Some p4
        by (simp add: out_def startChat_def startHeartbeat_def unawaited_def c1_def row_def
            started_row_def)
      have "row \<in> set (participants (snd (createMatchedSession e row compatiblePartner chatType d3)))"
        using p4 n r3 flags by (intro pair_none_keeps) simp_all
      then have "row \<in> set (participants d4)"
        by (simp add: p4)
      then show ?thesis
        using flags later
        by (simp add: out startChat_failed_def toast_def stopHeartbeat_def c1_def)
    qed
  qed
qed

lemmas start_defs = lone_db_def idle_client_def pB_def row_p_def env_at_def quiet_def started_row_def
  startChat_def startChat_failed_def startHeartbeat_def stopHeartbeat_def unawaited_def toast_def
  insert_participant_def js_trim_def pg_trim_def trim_both_def js_whitespace_def
  findOnlineCompatiblePartner_def rpc_cleanup_def cleanup_offline_participants_def
  mark_offline_row_def liveness_threshold_def select_candidates_def candidate_row_def
  mutually_compatible_def createMatchedSession_def insert_session_def Let_def

theorem startChat_failure_keeps_row_witness:
  "\<not> fails ((env_at 100000 10)\<lparr>fails := (\<lambda>call. call = InsertSession)\<rparr>) InsertParticipant \<and>
   js_trim ''dan '' = ''dan'' \<and>
   startChat ((env_at 100000 10)\<lparr>fails := (\<lambda>call. call = InsertSession)\<rparr>) ''dan '' male any_gender
       text_chat (idle_client, lone_db) =
     (idle_client\<lparr>currentParticipant := Some (row_p 10 None male any_gender True 100000 100000 True
                                                  \<lparr>p_name := ''dan''\<rparr>),
                   toasts := [''Error'']\<rparr>,
      lone_db\<lparr>participants := [pB, row_p 10 None male any_gender True 100000 100000 True
                                       \<lparr>p_name := ''dan''\<rparr>]\<rparr>) \<and>
   fst (findOnlineCompatiblePartner (env_at 100500 0) pB text_chat
          (snd (startChat ((env_at 100000 10)\<lparr>fails := (\<lambda>call. call = InsertSession)\<rparr>) ''dan '' male
                  any_gender text_chat (idle_client, lone_db))))
     = Some (row_p 10 None male any_gender True 100000 100000 True\<lparr>p_name := ''dan''\<rparr>)"
  using startChat_failure_keeps_row
    [where e = "(env_at 100000 10)\<lparr>fails := (\<lambda>call. call = InsertSession)\<rparr>" and d = lone_db
       and name = "''dan ''" and gender = male and preferredGender = any_gender
       and chatType = text_chat and c = idle_client]
  by (simp add: start_defs)

section \<open>The partner goes offline\<close>

text \<open>
  Claim C10 against the code. B's client receives the update of A's row with the online
  flag false. The handler shows the toast, drops the partner and the connected flag,
  and builds the update that would end the session, but never sends it: the store is
  exactly as before, and session 1 is still matched.
\<close>

theorem partner_offline_session_stays_matched:
  "on_partner_update (env_at 70000 0) (row_p 1 (Some 1) male any_gender False 100 8000 False)
     (chat_client 2 1 [], offline_db)
     = ((chat_client 2 1 [])\<lparr>partner := None, isConnected := False,
                               toasts := [''Partner disconnected'']\<rparr>, offline_db) \<and>
   session_status offline_db 1 = Some matched"
  by (simp add: on_partner_update_def chat_client_def offline_db_def row_p_def row_s_def
      env_at_def toast_def unawaited_def session_status_def)

end
